theory Spec2Isabelle
  imports Complex_Main
begin

section \<open>Data model of rasterio.mask\<close>

text \<open>
  The module \<open>rasterio/mask.py\<close> has two functions, \<open>raster_geom_mask\<close> and \<open>mask\<close>.
  Both work on a raster dataset object and call into \<open>rasterio.features\<close>
  (\<open>geometry_window\<close>, \<open>geometry_mask\<close>) and into the dataset (\<open>read\<close>,
  \<open>window_transform\<close>). Those collaborators are not part of the module: they are
  parameters of the model. Every exception of the source is a value \<open>Inl err\<close>.
\<close>

datatype error = ValueError string | ExternalError string

text \<open>
  \<open>affine.Affine\<close>: six coefficients. The source reads only the coefficient \<open>e\<close>
  (\<open>raster.transform.e\<close>), here \<open>aff_e\<close>. Python floats are modelled as reals.
\<close>

record affine =
  aff_a :: real
  aff_b :: real
  aff_c :: real
  aff_d :: real
  aff_e :: real
  aff_f :: real

text \<open>\<open>rasterio.windows.Window\<close>: column and row offset, width and height.\<close>

record window =
  col_off :: int
  row_off :: int
  win_width :: int
  win_height :: int

text \<open>\<open>Window.flatten()\<close> is the tuple \<open>(col_off, row_off, width, height)\<close>.\<close>

definition flatten :: "window \<Rightarrow> int \<times> int \<times> int \<times> int" where
  "flatten w = (col_off w, row_off w, win_width w, win_height w)"

text \<open>
  A numpy array is its shape together with its cells. The module never indexes an
  array: it builds arrays and combines them cell by cell.
\<close>

record 'a ndarray2 =
  shape2 :: "int \<times> int"
  cells2 :: "int \<Rightarrow> int \<Rightarrow> 'a"

record 'a ndarray3 =
  shape3 :: "int \<times> int \<times> int"
  cells3 :: "int \<Rightarrow> int \<Rightarrow> int \<Rightarrow> 'a"

text \<open>\<open>numpy.ma.MaskedArray\<close>: the data and a parallel mask, True where excluded.\<close>

record 'a masked_array =
  ma_shape :: "int \<times> int \<times> int"
  ma_data :: "int \<Rightarrow> int \<Rightarrow> int \<Rightarrow> 'a"
  ma_mask :: "int \<Rightarrow> int \<Rightarrow> int \<Rightarrow> bool"

text \<open>
  The raster dataset as the module uses it: the attributes \<open>height\<close>, \<open>width\<close>,
  \<open>count\<close>, \<open>nodata\<close>, \<open>transform\<close> and the methods \<open>window_transform\<close> and
  \<open>read\<close>. \<open>read(window, out_shape, masked)\<close> may raise; when it returns, it returns
  a masked array of shape \<open>out_shape\<close>, so the method is modelled by the data cells and
  the mask cells of that array.
\<close>

record 'v raster =
  height :: int
  width :: int
  count :: int
  nodata :: "'v option"
  transform :: affine
  window_transform :: "window \<Rightarrow> affine"
  read :: "window option \<Rightarrow> int \<times> int \<times> int \<Rightarrow> bool \<Rightarrow>
             error + ((int \<Rightarrow> int \<Rightarrow> int \<Rightarrow> 'v) \<times> (int \<Rightarrow> int \<Rightarrow> int \<Rightarrow> bool))"

text \<open>
  Modelled from the spec: the dataset property \<open>raster.shape\<close> is not in the module.
  The spec sizes the no-overlap mask "to the full raster", that is (height, width);
  the slice \<open>[-2:]\<close> of that pair is the pair itself.
\<close>

definition shape :: "'v raster \<Rightarrow> int \<times> int" where
  "shape r = (height r, width r)"

text \<open>
  The functions imported from \<open>rasterio.features\<close>. \<open>geometry_window(raster, shapes,
  north_up, pad_x, pad_y)\<close> returns a window or raises; \<open>geometry_mask(shapes, transform,
  invert, out_shape, all_touched)\<close> returns a boolean array of shape \<open>out_shape\<close> or
  raises, and is modelled by the cells of that array.
\<close>

record ('v, 's) features =
  geometry_window :: "'v raster \<Rightarrow> 's list \<Rightarrow> bool \<Rightarrow> real \<Rightarrow> real \<Rightarrow> error + window"
  geometry_mask :: "'s list \<Rightarrow> affine \<Rightarrow> bool \<Rightarrow> int \<times> int \<Rightarrow> bool \<Rightarrow>
                      error + (int \<Rightarrow> int \<Rightarrow> bool)"

text \<open>
  What a call does besides returning: the warnings it emits and the collaborators it
  calls, in order, each with the arguments it receives.
\<close>

datatype 's event =
    Warn string
  | Call_geometry_window "'s list" bool real real
  | Call_window_transform window
  | Call_geometry_mask "'s list" affine bool "int \<times> int" bool
  | Call_read "window option" "int \<times> int \<times> int" bool

section \<open>numpy operations used by the module\<close>

text \<open>\<open>np.ones(shape=..., dtype='bool')\<close>.\<close>

definition np_ones :: "int \<times> int \<Rightarrow> bool ndarray2" where
  "np_ones sh = \<lparr>shape2 = sh, cells2 = (\<lambda>i j. True)\<rparr>"

text \<open>A boolean array times a Python bool: the conjunction, cell by cell.\<close>

definition np_times :: "bool ndarray2 \<Rightarrow> bool \<Rightarrow> bool ndarray2" where
  "np_times m b = m\<lparr>cells2 := (\<lambda>i j. cells2 m i j \<and> b)\<rparr>"

text \<open>
  \<open>out_image.mask | shape_mask\<close>: the (height, width) mask is broadcast over the bands
  of the (count, height, width) mask.
\<close>

definition np_or :: "(int \<Rightarrow> int \<Rightarrow> int \<Rightarrow> bool) \<Rightarrow> bool ndarray2 \<Rightarrow> (int \<Rightarrow> int \<Rightarrow> int \<Rightarrow> bool)" where
  "np_or m sm = (\<lambda>b i j. m b i j \<or> cells2 sm i j)"

text \<open>\<open>MaskedArray.filled(fill_value)\<close>: the data with every masked cell replaced.\<close>

definition filled_with :: "'v masked_array \<Rightarrow> 'v \<Rightarrow> 'v ndarray3" where
  "filled_with ma v =
     \<lparr>shape3 = ma_shape ma,
      cells3 = (\<lambda>b i j. if ma_mask ma b i j then v else ma_data ma b i j)\<rparr>"

text \<open>\<open>mask\<close> returns a plain array when \<open>filled\<close>, a masked array otherwise.\<close>

datatype 'v out_image = Plain "'v ndarray3" | Masked "'v masked_array"

section \<open>raster_geom_mask\<close>

definition raster_geom_mask ::
  "('v, 's) features \<Rightarrow> 'v raster \<Rightarrow> 's list \<Rightarrow> bool \<Rightarrow> bool \<Rightarrow> bool \<Rightarrow> bool \<Rightarrow>
     's event list \<times> (error + (bool ndarray2 \<times> affine \<times> window option))" where
  "raster_geom_mask env raster shapes all_touched invert crop pad =
     (if crop \<and> invert then
        ([], Inl (ValueError ''crop and invert cannot both be True.''))
      else
        let pad_x = (if crop \<and> pad then 1 / 2 else 0);
            pad_y = (if crop \<and> pad then 1 / 2 else 0);
            north_up = (aff_e (transform raster) \<le> 0);
            tr = [Call_geometry_window shapes north_up pad_x pad_y]
        in case geometry_window env raster shapes north_up pad_x pad_y of
             Inl err \<Rightarrow> (tr, Inl err)
           | Inr window \<Rightarrow>
               if flatten window = (0, 0, 0, 0) then
                 (if crop then
                    (tr, Inl (ValueError ''Input shapes do not overlap raster.''))
                  else
                    (tr @ [Warn ''shapes are outside bounds of raster. Are they in different coordinate reference systems?''],
                     Inr (np_times (np_ones (shape raster)) (\<not> invert), transform raster, None)))
               else
                 let (tr2, out_transform, out_shape, out_window) =
                       (if crop then
                          (tr @ [Call_window_transform window],
                           window_transform raster window,
                           (win_height window, win_width window),
                           Some window)
                        else
                          (tr, transform raster, (height raster, width raster), None));
                     tr3 = tr2 @ [Call_geometry_mask shapes out_transform invert out_shape all_touched]
                 in (case geometry_mask env shapes out_transform invert out_shape all_touched of
                       Inl err \<Rightarrow> (tr3, Inl err)
                     | Inr c \<Rightarrow>
                         (tr3, Inr (\<lparr>shape2 = out_shape, cells2 = c\<rparr>, out_transform, out_window))))"

section \<open>mask\<close>

text \<open>Lines 163 to 167 of the source: the nodata value that \<open>mask\<close> fills with.\<close>

definition effective_nodata :: "('v::zero) raster \<Rightarrow> 'v option \<Rightarrow> 'v" where
  "effective_nodata raster nodata_arg =
     (case nodata_arg of
        None \<Rightarrow> (case nodata raster of Some v \<Rightarrow> v | None \<Rightarrow> 0)
      | Some v \<Rightarrow> v)"

definition mask ::
  "('v::zero, 's) features \<Rightarrow> 'v raster \<Rightarrow> 's list \<Rightarrow> bool \<Rightarrow> bool \<Rightarrow> 'v option \<Rightarrow> bool \<Rightarrow> bool \<Rightarrow> bool \<Rightarrow>
     's event list \<times> (error + ('v out_image \<times> affine))" where
  "mask env raster shapes all_touched invert nodata_arg filled crop pad =
     (let nd = effective_nodata raster nodata_arg
      in case raster_geom_mask env raster shapes all_touched invert crop pad of
           (tr, Inl err) \<Rightarrow> (tr, Inl err)
         | (tr, Inr (shape_mask, out_transform, out_window)) \<Rightarrow>
             let (h, w) = shape2 shape_mask;
                 out_shape = (count raster, h, w);
                 tr2 = tr @ [Call_read out_window out_shape True]
             in (case read raster out_window out_shape True of
                   Inl err \<Rightarrow> (tr2, Inl err)
                 | Inr (d, m) \<Rightarrow>
                     let out_image = \<lparr>ma_shape = out_shape, ma_data = d, ma_mask = m\<rparr>;
                         out_image2 = out_image\<lparr>ma_mask := np_or (ma_mask out_image) shape_mask\<rparr>
                     in (tr2, Inr (if filled then Plain (filled_with out_image2 nd)
                                    else Masked out_image2,
                                   out_transform))))"

section \<open>Observations on the events of a call\<close>


section \<open>A concrete raster and concrete collaborators\<close>

text \<open>
  A north-up raster of 2 rows, 3 columns and one band, with nodata -1, whose only
  invalid pixel is the one at row 0, column 0. The collaborators answer with a fixed
  window, and rasterize shapes that cover every column but column 0.
\<close>

definition example_transform :: affine where
  "example_transform = \<lparr>aff_a = 1, aff_b = 0, aff_c = 0, aff_d = 0, aff_e = - 1, aff_f = 2\<rparr>"

definition example_data :: "int \<Rightarrow> int \<Rightarrow> int \<Rightarrow> int" where
  "example_data = (\<lambda>b i j. 10 * i + j)"

definition example_invalid :: "int \<Rightarrow> int \<Rightarrow> int \<Rightarrow> bool" where
  "example_invalid = (\<lambda>b i j. i = 0 \<and> j = 0)"

definition example_raster :: "int raster" where
  "example_raster =
     \<lparr>height = 2, width = 3, count = 1, nodata = Some (- 1),
      transform = example_transform,
      window_transform = (\<lambda>w. example_transform
         \<lparr>aff_c := aff_c example_transform + real_of_int (col_off w) * aff_a example_transform,
          aff_f := aff_f example_transform + real_of_int (row_off w) * aff_e example_transform\<rparr>),
      read = (\<lambda>w osh masked. Inr (example_data, example_invalid))\<rparr>"


definition example_features :: "window \<Rightarrow> (int, nat) features" where
  "example_features w =
     \<lparr>geometry_window = (\<lambda>r s n px py. Inr w),
      geometry_mask = (\<lambda>s t inv osh touched. Inr (\<lambda>i j. (j = 0) \<noteq> inv))\<rparr>"

definition no_overlap :: window where
  "no_overlap = \<lparr>col_off = 0, row_off = 0, win_width = 0, win_height = 0\<rparr>"

definition overlap :: window where
  "overlap = \<lparr>col_off = 1, row_off = 0, win_width = 2, win_height = 2\<rparr>"

definition example_shape_mask :: "bool ndarray2" where
  "example_shape_mask = \<lparr>shape2 = (2, 3), cells2 = (\<lambda>i j. j = 0)\<rparr>"

definition example_events :: "nat event list" where
  "example_events =
     [Call_geometry_window [0] True 0 0,
      Call_geometry_mask [0] example_transform False (2, 3) False]"

lemmas example_defs = example_raster_def example_features_def example_transform_def
  no_overlap_def overlap_def flatten_def example_shape_mask_def example_events_def

section \<open>The branches of raster_geom_mask\<close>

text \<open>
  One lemma for each path through the function: what it returns and which events it
  leaves, given how the flags are set and what geometry_window answers.
\<close>

lemma rgm_config:
  "raster_geom_mask env raster shapes all_touched True True pad =
     ([], Inl (ValueError ''crop and invert cannot both be True.''))"
  by (simp add: raster_geom_mask_def)

lemma rgm_window_error:
  assumes "\<not> (crop \<and> invert)"
    and "geometry_window env raster shapes (aff_e (transform raster) \<le> 0)
           (if crop \<and> pad then 1 / 2 else 0) (if crop \<and> pad then 1 / 2 else 0) = Inl err"
  shows "raster_geom_mask env raster shapes all_touched invert crop pad =
           ([Call_geometry_window shapes (aff_e (transform raster) \<le> 0)
               (if crop \<and> pad then 1 / 2 else 0) (if crop \<and> pad then 1 / 2 else 0)], Inl err)"
  using assms by (simp add: raster_geom_mask_def Let_def)

lemma rgm_no_overlap_crop:
  assumes "\<not> invert"
    and "geometry_window env raster shapes (aff_e (transform raster) \<le> 0)
           (if pad then 1 / 2 else 0) (if pad then 1 / 2 else 0) = Inr w"
    and "flatten w = (0, 0, 0, 0)"
  shows "raster_geom_mask env raster shapes all_touched invert True pad =
           ([Call_geometry_window shapes (aff_e (transform raster) \<le> 0)
               (if pad then 1 / 2 else 0) (if pad then 1 / 2 else 0)],
            Inl (ValueError ''Input shapes do not overlap raster.''))"
  using assms by (simp add: raster_geom_mask_def Let_def)

lemma rgm_no_overlap_no_crop:
  assumes "geometry_window env raster shapes (aff_e (transform raster) \<le> 0) 0 0 = Inr w"
    and "flatten w = (0, 0, 0, 0)"
  shows "raster_geom_mask env raster shapes all_touched invert False pad =
           ([Call_geometry_window shapes (aff_e (transform raster) \<le> 0) 0 0,
             Warn ''shapes are outside bounds of raster. Are they in different coordinate reference systems?''],
            Inr (np_times (np_ones (shape raster)) (\<not> invert), transform raster, None))"
  using assms by (simp add: raster_geom_mask_def Let_def)

lemma rgm_overlap_crop:
  assumes "\<not> invert"
    and "geometry_window env raster shapes (aff_e (transform raster) \<le> 0)
           (if pad then 1 / 2 else 0) (if pad then 1 / 2 else 0) = Inr w"
    and "flatten w \<noteq> (0, 0, 0, 0)"
  shows "raster_geom_mask env raster shapes all_touched invert True pad =
           ([Call_geometry_window shapes (aff_e (transform raster) \<le> 0)
               (if pad then 1 / 2 else 0) (if pad then 1 / 2 else 0),
             Call_window_transform w,
             Call_geometry_mask shapes (window_transform raster w) invert
               (win_height w, win_width w) all_touched],
            (case geometry_mask env shapes (window_transform raster w) invert
                    (win_height w, win_width w) all_touched of
               Inl err \<Rightarrow> Inl err
             | Inr c \<Rightarrow> Inr (\<lparr>shape2 = (win_height w, win_width w), cells2 = c\<rparr>,
                             window_transform raster w, Some w)))"
  using assms by (simp add: raster_geom_mask_def Let_def split: sum.split)

lemma rgm_overlap_no_crop:
  assumes "geometry_window env raster shapes (aff_e (transform raster) \<le> 0) 0 0 = Inr w"
    and "flatten w \<noteq> (0, 0, 0, 0)"
  shows "raster_geom_mask env raster shapes all_touched invert False pad =
           ([Call_geometry_window shapes (aff_e (transform raster) \<le> 0) 0 0,
             Call_geometry_mask shapes (transform raster) invert
               (height raster, width raster) all_touched],
            (case geometry_mask env shapes (transform raster) invert
                    (height raster, width raster) all_touched of
               Inl err \<Rightarrow> Inl err
             | Inr c \<Rightarrow> Inr (\<lparr>shape2 = (height raster, width raster), cells2 = c\<rparr>,
                             transform raster, None)))"
  using assms by (simp add: raster_geom_mask_def Let_def split: sum.split)

text \<open>
  The events of a call that passes the flag check: one call of geometry_window, with
  the orientation of the raster and the padding of the flags, and after it no second one.
\<close>

lemma rgm_events:
  assumes "\<not> (crop \<and> invert)"
  shows "\<exists>rest. fst (raster_geom_mask env raster shapes all_touched invert crop pad) =
           Call_geometry_window shapes (aff_e (transform raster) \<le> 0)
             (if crop \<and> pad then 1 / 2 else 0) (if crop \<and> pad then 1 / 2 else 0) # rest
         \<and> (\<forall>s n x y. Call_geometry_window s n x y \<notin> set rest)"
proof (cases "geometry_window env raster shapes (aff_e (transform raster) \<le> 0)
           (if crop \<and> pad then 1 / 2 else 0) (if crop \<and> pad then 1 / 2 else 0)")
  case (Inl err)
  from rgm_window_error [OF assms this] show ?thesis by simp
next
  case (Inr w)
  show ?thesis
  proof (cases crop)
    case True
    with assms have ni: "\<not> invert" by simp
    from Inr True have gw: "geometry_window env raster shapes (aff_e (transform raster) \<le> 0)
           (if pad then 1 / 2 else 0) (if pad then 1 / 2 else 0) = Inr w" by simp
    show ?thesis
    proof (cases "flatten w = (0, 0, 0, 0)")
      case z: True
      from rgm_no_overlap_crop [OF ni gw z] True show ?thesis by simp
    next
      case nz: False
      from rgm_overlap_crop [OF ni gw nz] True show ?thesis by simp
    qed
  next
    case False
    with Inr have gw: "geometry_window env raster shapes (aff_e (transform raster) \<le> 0) 0 0 = Inr w"
      by simp
    show ?thesis
    proof (cases "flatten w = (0, 0, 0, 0)")
      case z: True
      from rgm_no_overlap_no_crop [OF gw z] False show ?thesis by simp
    next
      case nz: False
      from rgm_overlap_no_crop [OF gw nz] False show ?thesis by simp
    qed
  qed
qed

text \<open>Hence a call of geometry_window among the events fixes the flags and its arguments.\<close>

lemma rgm_window_call:
  assumes "Call_geometry_window s n x y
             \<in> set (fst (raster_geom_mask env raster shapes all_touched invert crop pad))"
  shows "\<not> (crop \<and> invert) \<and> s = shapes \<and> n = (aff_e (transform raster) \<le> 0)
         \<and> x = (if crop \<and> pad then 1 / 2 else 0) \<and> y = (if crop \<and> pad then 1 / 2 else 0)"
proof (cases "crop \<and> invert")
  case True
  with assms rgm_config [of env raster shapes all_touched pad] show ?thesis by simp
next
  case False
  from rgm_events [OF False, of env raster shapes all_touched pad]
  obtain rest where
    "fst (raster_geom_mask env raster shapes all_touched invert crop pad) =
           Call_geometry_window shapes (aff_e (transform raster) \<le> 0)
             (if crop \<and> pad then 1 / 2 else 0) (if crop \<and> pad then 1 / 2 else 0) # rest"
    and "\<forall>s n x y. Call_geometry_window s n x y \<notin> set rest"
    by blast
  with assms False show ?thesis by auto
qed


section \<open>Properties of raster_geom_mask\<close>

text \<open>
  C2. A call of raster_geom_mask with crop and invert both true fails with the
  configuration error, whatever the raster, the shapes, the other flags and the
  collaborators are, and so does a call of mask. The error comes before anything
  else of the call that can be observed: no collaborator has been called and no
  warning has been emitted (the list of events is empty). In mask the nodata value is
  resolved first; that reads two values and calls nothing.
\<close>

theorem crop_and_invert_rejected:
  "raster_geom_mask env raster shapes all_touched True True pad =
     ([], Inl (ValueError ''crop and invert cannot both be True.''))
   \<and> mask env raster shapes all_touched True nodata_arg filled True pad =
     ([], Inl (ValueError ''crop and invert cannot both be True.''))"
  by (simp add: raster_geom_mask_def mask_def)

text \<open>
  C1. Take a call of raster_geom_mask that computes a geometry window (a call of
  geometry_window is among its events) and let that window be the all-zero one.
  If crop is true, the call fails with the overlap error. If crop is false, the call
  emits the overlap warning and returns a mask of shape (height, width) whose cells
  all equal \<open>\<not> invert\<close>, the transform of the raster, and no window.
  (A call with crop and invert both true computes no window: see C2.)
\<close>

theorem no_overlap_raises_or_warns:
  assumes "Call_geometry_window shapes north_up pad_x pad_y
             \<in> set (fst (raster_geom_mask env raster shapes all_touched invert crop pad))"
    and "geometry_window env raster shapes north_up pad_x pad_y = Inr w"
    and "flatten w = (0, 0, 0, 0)"
  shows "(crop \<longrightarrow> snd (raster_geom_mask env raster shapes all_touched invert crop pad)
                    = Inl (ValueError ''Input shapes do not overlap raster.''))
       \<and> (\<not> crop \<longrightarrow> (\<exists>m. raster_geom_mask env raster shapes all_touched invert crop pad
                    = ([Call_geometry_window shapes north_up pad_x pad_y,
                        Warn ''shapes are outside bounds of raster. Are they in different coordinate reference systems?''],
                       Inr (m, transform raster, None))
                  \<and> shape2 m = (height raster, width raster)
                  \<and> (\<forall>i j. cells2 m i j = (\<not> invert))))"
proof -
  from rgm_window_call [OF assms(1)]
  have ci: "\<not> (crop \<and> invert)" and nu: "north_up = (aff_e (transform raster) \<le> 0)"
    and px: "pad_x = (if crop \<and> pad then 1 / 2 else 0)"
    and py: "pad_y = (if crop \<and> pad then 1 / 2 else 0)"
    by simp_all
  show ?thesis
  proof (cases crop)
    case True
    with ci have ni: "\<not> invert" by simp
    from assms(2) nu px py True
    have gw: "geometry_window env raster shapes (aff_e (transform raster) \<le> 0)
           (if pad then 1 / 2 else 0) (if pad then 1 / 2 else 0) = Inr w" by simp
    from rgm_no_overlap_crop [OF ni gw assms(3)] True show ?thesis by simp
  next
    case False
    from assms(2) nu px py False
    have gw: "geometry_window env raster shapes (aff_e (transform raster) \<le> 0) 0 0 = Inr w"
      by simp
    from rgm_no_overlap_no_crop [OF gw assms(3), of all_touched invert pad] False nu px py
    show ?thesis by (simp add: np_times_def np_ones_def shape_def)
  qed
qed

theorem no_overlap_raises_or_warns_witness:
  "Call_geometry_window [0] True 0 0
      \<in> set (fst (raster_geom_mask (example_features no_overlap) example_raster [0] False False True False))
   \<and> Call_geometry_window [0] True 0 0
      \<in> set (fst (raster_geom_mask (example_features no_overlap) example_raster [0] False True False False))
   \<and> geometry_window (example_features no_overlap) example_raster [0] True 0 0 = Inr no_overlap
   \<and> flatten no_overlap = (0, 0, 0, 0)
   \<and> snd (raster_geom_mask (example_features no_overlap) example_raster [0] False False True False)
       = Inl (ValueError ''Input shapes do not overlap raster.'')
   \<and> (\<exists>m. raster_geom_mask (example_features no_overlap) example_raster [0] False True False False
             = ([Call_geometry_window [0] True 0 0,
                 Warn ''shapes are outside bounds of raster. Are they in different coordinate reference systems?''],
                Inr (m, example_transform, None))
           \<and> shape2 m = (2, 3) \<and> \<not> cells2 m 0 0 \<and> \<not> cells2 m 1 2)"
proof -
  have h1: "Call_geometry_window [0] True 0 0
      \<in> set (fst (raster_geom_mask (example_features no_overlap) example_raster [0] False False True False))"
    by (simp add: raster_geom_mask_def example_defs)
  have h1': "Call_geometry_window [0] True 0 0
      \<in> set (fst (raster_geom_mask (example_features no_overlap) example_raster [0] False True False False))"
    by (simp add: raster_geom_mask_def example_defs)
  have h2: "geometry_window (example_features no_overlap) example_raster [0] True 0 0 = Inr no_overlap"
    by (simp add: example_defs)
  have h3: "flatten no_overlap = (0, 0, 0, 0)"
    by (simp add: example_defs)
  have r: "transform example_raster = example_transform" "height example_raster = 2"
    "width example_raster = 3"
    by (simp_all add: example_raster_def)
  from no_overlap_raises_or_warns [OF h1 h2 h3]
  have a: "snd (raster_geom_mask (example_features no_overlap) example_raster [0] False False True False)
       = Inl (ValueError ''Input shapes do not overlap raster.'')"
    by simp
  from no_overlap_raises_or_warns [OF h1' h2 h3] r
  have b: "\<exists>m. raster_geom_mask (example_features no_overlap) example_raster [0] False True False False
             = ([Call_geometry_window [0] True 0 0,
                 Warn ''shapes are outside bounds of raster. Are they in different coordinate reference systems?''],
                Inr (m, example_transform, None))
           \<and> shape2 m = (2, 3) \<and> \<not> cells2 m 0 0 \<and> \<not> cells2 m 1 2"
    by auto
  from h1 h1' h2 h3 a b show ?thesis by blast
qed




text \<open>
  C4. Take a call of raster_geom_mask with crop false for which geometry_window answers
  a window other than the all-zero one. The call asks geometry_mask for a mask of shape
  (height, width) of the raster under the raster's own transform, and returns that mask,
  the raster's own transform and no window. The computed window occurs nowhere in what
  the call returns nor in what it passes on: the right-hand side does not mention it.
\<close>

theorem no_crop_discards_window:
  assumes "geometry_window env raster shapes (aff_e (transform raster) \<le> 0) 0 0 = Inr w"
    and "flatten w \<noteq> (0, 0, 0, 0)"
  shows "raster_geom_mask env raster shapes all_touched invert False pad =
           ([Call_geometry_window shapes (aff_e (transform raster) \<le> 0) 0 0,
             Call_geometry_mask shapes (transform raster) invert
               (height raster, width raster) all_touched],
            (case geometry_mask env shapes (transform raster) invert
                    (height raster, width raster) all_touched of
               Inl err \<Rightarrow> Inl err
             | Inr c \<Rightarrow> Inr (\<lparr>shape2 = (height raster, width raster), cells2 = c\<rparr>,
                             transform raster, None)))"
  using assms by (rule rgm_overlap_no_crop)

theorem no_crop_discards_window_witness:
  "geometry_window (example_features overlap) example_raster [0]
      (aff_e (transform example_raster) \<le> 0) 0 0 = Inr overlap
   \<and> flatten overlap \<noteq> (0, 0, 0, 0)
   \<and> raster_geom_mask (example_features overlap) example_raster [0] False True False True =
        ([Call_geometry_window [0] True 0 0,
          Call_geometry_mask [0] example_transform True (2, 3) False],
         Inr (\<lparr>shape2 = (2, 3), cells2 = (\<lambda>i j. j \<noteq> 0)\<rparr>, example_transform, None))"
  using no_crop_discards_window [of "example_features overlap" example_raster "[0]" overlap False True True]
  by (simp add: example_defs)

section \<open>Properties of mask\<close>














end
